theory Spec2Isabelle
  imports Main "HOL-Library.Char_ord" "HOL-Library.List_Lexorder" "HOL-Library.AList"
begin

section \<open>Python strings\<close>

text \<open>
  Python \<open>str\<close> values are modelled as \<open>string\<close>.  A character is a code point below 256
  (ASCII and the Latin-1 supplement); on these \<open>str.lower\<close> acts character by character:
  the letters \<open>A\<close> to \<open>Z\<close> and the Latin-1 capitals U+00C0 to U+00DE (without the
  multiplication sign U+00D7) go to the letter 32 places further on, and every other
  character is kept.
\<close>

definition latin1_upper :: string where
  "latin1_upper =
     [CHR 0xC0, CHR 0xC1, CHR 0xC2, CHR 0xC3, CHR 0xC4, CHR 0xC5, CHR 0xC6,
      CHR 0xC7, CHR 0xC8, CHR 0xC9, CHR 0xCA, CHR 0xCB, CHR 0xCC, CHR 0xCD,
      CHR 0xCE, CHR 0xCF, CHR 0xD0, CHR 0xD1, CHR 0xD2, CHR 0xD3, CHR 0xD4,
      CHR 0xD5, CHR 0xD6, CHR 0xD8, CHR 0xD9, CHR 0xDA, CHR 0xDB, CHR 0xDC,
      CHR 0xDD, CHR 0xDE]"

definition latin1_lower :: string where
  "latin1_lower =
     [CHR 0xE0, CHR 0xE1, CHR 0xE2, CHR 0xE3, CHR 0xE4, CHR 0xE5, CHR 0xE6,
      CHR 0xE7, CHR 0xE8, CHR 0xE9, CHR 0xEA, CHR 0xEB, CHR 0xEC, CHR 0xED,
      CHR 0xEE, CHR 0xEF, CHR 0xF0, CHR 0xF1, CHR 0xF2, CHR 0xF3, CHR 0xF4,
      CHR 0xF5, CHR 0xF6, CHR 0xF8, CHR 0xF9, CHR 0xFA, CHR 0xFB, CHR 0xFC,
      CHR 0xFD, CHR 0xFE]"

definition lower_char :: "char \<Rightarrow> char" where
  "lower_char c =
     (case map_of (zip (''ABCDEFGHIJKLMNOPQRSTUVWXYZ'' @ latin1_upper)
                       (''abcdefghijklmnopqrstuvwxyz'' @ latin1_lower)) c of
        Some d \<Rightarrow> d
      | None \<Rightarrow> c)"

definition lower :: "string \<Rightarrow> string" where
  "lower s = map lower_char s"

text \<open>\<open>s.startswith(p)\<close>, \<open>s.endswith(p)\<close> and \<open>sub in s\<close>.\<close>

definition startswith :: "'a list \<Rightarrow> 'a list \<Rightarrow> bool" where
  "startswith s p = (take (length p) s = p)"

definition endswith :: "'a list \<Rightarrow> 'a list \<Rightarrow> bool" where
  "endswith s p = (length p \<le> length s \<and> drop (length s - length p) s = p)"

fun contains :: "string \<Rightarrow> string \<Rightarrow> bool" where
  "contains [] sub = (sub = [])"
| "contains (c # cs) sub = (startswith (c # cs) sub \<or> contains cs sub)"

text \<open>\<open>s.split('/')\<close> (never empty) and \<open>'/'.join(parts)\<close>.\<close>

fun split_sep :: "string \<Rightarrow> string list" where
  "split_sep [] = [[]]"
| "split_sep (c # cs) =
     (if c = CHR ''/'' then [] # split_sep cs
      else (case split_sep cs of
              [] \<Rightarrow> [[c]]
            | w # ws \<Rightarrow> (c # w) # ws))"

fun join_sep :: "string list \<Rightarrow> string" where
  "join_sep [] = []"
| "join_sep [w] = w"
| "join_sep (w # v # ws) = w @ CHR ''/'' # join_sep (v # ws)"

section \<open>\<open>os.path\<close> and \<open>pathlib\<close> on POSIX\<close>

text \<open>\<open>os.path.basename(p)\<close>: the text after the last slash.\<close>

definition basename :: "string \<Rightarrow> string" where
  "basename p = last (split_sep p)"

text \<open>
  A \<open>pathlib.Path\<close> is modelled by its parts below the file system root.  Parsing a string
  drops empty components and \<open>.\<close> but keeps \<open>..\<close>; a relative string is taken below the
  current working directory by the operations that touch the file system.
\<close>

type_synonym path = "string list"

definition path_parts :: "string \<Rightarrow> path" where
  "path_parts s = filter (\<lambda>w. w \<noteq> [] \<and> w \<noteq> ''.'') (split_sep s)"

definition is_absolute :: "string \<Rightarrow> bool" where
  "is_absolute s = startswith s ''/''"

text \<open>\<open>Path(s).name\<close> and \<open>Path(s).suffix\<close> (the final component's last extension, with
  its dot: empty when the only dot is the first or the last character).\<close>

definition path_name :: "path \<Rightarrow> string" where
  "path_name p = (if p = [] then [] else last p)"

definition name_suffix :: "string \<Rightarrow> string" where
  "name_suffix name =
     (let ext = rev (takeWhile (\<lambda>c. c \<noteq> CHR ''.'') (rev name))
      in if CHR ''.'' \<in> set name \<and> length ext + 1 < length name \<and> ext \<noteq> []
         then CHR ''.'' # ext else [])"

definition path_suffix :: "string \<Rightarrow> string" where
  "path_suffix s = name_suffix (path_name (path_parts s))"

text \<open>\<open>os.path.normpath\<close>: the loop over the components, then the function.\<close>

fun norm_comps :: "bool \<Rightarrow> string list \<Rightarrow> string list \<Rightarrow> string list" where
  "norm_comps initial_slashes new_comps [] = new_comps"
| "norm_comps initial_slashes new_comps (c # comps) =
     (if c = [] \<or> c = ''.'' then norm_comps initial_slashes new_comps comps
      else if c \<noteq> ''..'' \<or> (\<not> initial_slashes \<and> new_comps = [])
               \<or> (new_comps \<noteq> [] \<and> last new_comps = ''..'')
           then norm_comps initial_slashes (new_comps @ [c]) comps
      else if new_comps \<noteq> [] then norm_comps initial_slashes (butlast new_comps) comps
      else norm_comps initial_slashes new_comps comps)"

definition normpath :: "string \<Rightarrow> string" where
  "normpath p =
     (if p = [] then ''.''
      else let initial_slashes =
                 (if startswith p ''/''
                  then (if startswith p ''//'' \<and> \<not> startswith p ''///'' then 2 else 1)
                  else (0::nat));
               comps = norm_comps (initial_slashes \<noteq> 0) [] (split_sep p);
               q = replicate initial_slashes CHR ''/'' @ join_sep comps
           in if q = [] then ''.'' else q)"

text \<open>\<open>s.lstrip('/\\')\<close>: leading slashes and backslashes are removed.\<close>

definition lstrip_seps :: "string \<Rightarrow> string" where
  "lstrip_seps s = dropWhile (\<lambda>c. c = CHR ''/'' \<or> c = CHR 0x5C) s"

text \<open>\<open>base / s\<close>: an absolute right operand replaces the left one.\<close>

definition joinpath :: "path \<Rightarrow> string \<Rightarrow> path" where
  "joinpath base s = (if is_absolute s then path_parts s else base @ path_parts s)"

text \<open>
  \<open>Path.resolve()\<close> on a file system without symbolic links: \<open>..\<close> steps to the parent,
  and the parent of the root is the root.
\<close>

fun collapse_onto :: "path \<Rightarrow> path \<Rightarrow> path" where
  "collapse_onto acc [] = acc"
| "collapse_onto acc (w # ws) =
     (if w = ''..'' then collapse_onto (butlast acc) ws else collapse_onto (acc @ [w]) ws)"

definition collapse :: "path \<Rightarrow> path" where
  "collapse p = collapse_onto [] p"

text \<open>\<open>str(p)\<close> of an absolute path.\<close>

definition path_str :: "path \<Rightarrow> string" where
  "path_str p = CHR ''/'' # join_sep p"

section \<open>Exceptions\<close>

text \<open>
  A raised exception is a value: its class (\<open>RuntimeError\<close> stands for that class and its
  subclasses, \<open>CodecError\<close> for the codec libraries' own exception classes, \<open>OSError\<close> for
  the operating system's errors other than \<open>FileNotFoundError\<close>) and \<open>str(e)\<close>.
\<close>

datatype exn_class =
  FileNotFoundError | ValueError | ImportError | TypeError | RuntimeError | OSError | CodecError

datatype exn = Exn exn_class string

fun exn_class_of :: "exn \<Rightarrow> exn_class" where
  "exn_class_of (Exn c m) = c"

fun exn_message :: "exn \<Rightarrow> string" where
  "exn_message (Exn c m) = m"

section \<open>The format resolver and the path resolver\<close>

text \<open>\<open>ArchiveManager._get_format\<close>.\<close>

definition get_format :: "string \<Rightarrow> string" where
  "get_format p =
     (let name = lower (basename p)
      in if endswith name ''.tar.gz'' then ''tar.gz''
         else if endswith name ''.tar.xz'' then ''tar.xz''
         else if endswith name ''.tgz'' then ''tar.gz''
         else lower (drop 1 (path_suffix p)))"


text \<open>
  \<open>ArchiveManager._resolve_path\<close>: first the normalised, left-stripped \<open>safe_path\<close>, then
  the function.  The containment test is computed and its outcome is discarded (\<open>pass\<close>),
  so both branches return the joined path; no branch raises.
\<close>

definition safe_path :: "string \<Rightarrow> string" where
  "safe_path path_in_archive = lstrip_seps (normpath path_in_archive)"

definition resolve_path :: "path \<Rightarrow> string \<Rightarrow> exn + path" where
  "resolve_path temp_dir path_in_archive =
     (let full_path = joinpath temp_dir (safe_path path_in_archive)
      in if \<not> startswith (path_str (collapse full_path)) (path_str (collapse temp_dir))
         then Inr full_path
         else Inr full_path)"

section \<open>The file system\<close>

text \<open>
  The file system is a tree: a file holds its bytes, a directory an association list from
  names to nodes.  There are no symbolic links.  Paths handed to the tree functions are
  canonical (no \<open>..\<close>); the session-level operations below canonicalise with \<open>collapse\<close>, as
  the operating system does when it walks a path.
\<close>

datatype node = File string | Dir "(string \<times> node) list"

fun lookup :: "node \<Rightarrow> path \<Rightarrow> node option" where
  "lookup n [] = Some n"
| "lookup (File b) (k # ks) = None"
| "lookup (Dir es) (k # ks) = (case map_of es k of None \<Rightarrow> None | Some c \<Rightarrow> lookup c ks)"

fun is_dir_node :: "node \<Rightarrow> bool" where
  "is_dir_node (Dir es) = True"
| "is_dir_node (File b) = False"

fun is_file_node :: "node \<Rightarrow> bool" where
  "is_file_node (File b) = True"
| "is_file_node (Dir es) = False"

text \<open>The error numbers of the system calls, and the exceptions Python raises for them.\<close>

datatype errno = ENOENT | ENOTDIR | EISDIR | EEXIST

definition quoted :: "string \<Rightarrow> string" where
  "quoted s = CHR 0x27 # s @ [CHR 0x27]"

fun os_error :: "errno \<Rightarrow> path \<Rightarrow> exn" where
  "os_error ENOENT p =
     Exn FileNotFoundError (''[Errno 2] No such file or directory: '' @ quoted (path_str p))"
| "os_error ENOTDIR p = Exn OSError (''[Errno 20] Not a directory: '' @ quoted (path_str p))"
| "os_error EISDIR p = Exn OSError (''[Errno 21] Is a directory: '' @ quoted (path_str p))"
| "os_error EEXIST p = Exn OSError (''[Errno 17] File exists: '' @ quoted (path_str p))"

definition raise_errno :: "path \<Rightarrow> errno + 'a \<Rightarrow> exn + 'a" where
  "raise_errno p r = (case r of Inl e \<Rightarrow> Inl (os_error e p) | Inr x \<Rightarrow> Inr x)"

text \<open>\<open>Path.mkdir(parents=True, exist_ok=True)\<close> and \<open>os.makedirs(p, exist_ok=True)\<close>: missing
  directories along the path are created; a file on the way is an error.\<close>

fun new_dirs :: "path \<Rightarrow> node" where
  "new_dirs [] = Dir []"
| "new_dirs (k # ks) = Dir [(k, new_dirs ks)]"

fun makedirs :: "path \<Rightarrow> node \<Rightarrow> errno + node" where
  "makedirs [] (Dir es) = Inr (Dir es)"
| "makedirs [] (File b) = Inl EEXIST"
| "makedirs (k # ks) (File b) = Inl ENOTDIR"
| "makedirs (k # ks) (Dir es) =
     (case map_of es k of
        None \<Rightarrow> Inr (Dir (AList.update k (new_dirs ks) es))
      | Some c \<Rightarrow>
          (case makedirs ks c of
             Inl e \<Rightarrow> Inl e
           | Inr c' \<Rightarrow> Inr (Dir (AList.update k c' es))))"

text \<open>Putting a node at a path whose parent directory exists (the name is added or
  replaced), and \<open>open(p, 'wb').write(b)\<close>, which refuses a directory.\<close>

fun place :: "path \<Rightarrow> node \<Rightarrow> node \<Rightarrow> errno + node" where
  "place [] n t = Inr n"
| "place (k # ks) n (File b) = Inl ENOTDIR"
| "place (k # ks) n (Dir es) =
     (if ks = [] then Inr (Dir (AList.update k n es))
      else (case map_of es k of
              None \<Rightarrow> Inl ENOENT
            | Some c \<Rightarrow>
                (case place ks n c of
                   Inl e \<Rightarrow> Inl e
                 | Inr c' \<Rightarrow> Inr (Dir (AList.update k c' es)))))"

definition write_file :: "path \<Rightarrow> string \<Rightarrow> node \<Rightarrow> errno + node" where
  "write_file p b t =
     (case lookup t p of
        Some (Dir es) \<Rightarrow> Inl EISDIR
      | _ \<Rightarrow> place p (File b) t)"

text \<open>\<open>os.unlink\<close> and \<open>shutil.rmtree\<close> of an existing path: the name leaves its directory.\<close>

fun remove_at :: "path \<Rightarrow> node \<Rightarrow> node" where
  "remove_at [] t = t"
| "remove_at (k # ks) (File b) = File b"
| "remove_at (k # ks) (Dir es) =
     (if ks = [] then Dir (AList.delete k es)
      else (case map_of es k of
              None \<Rightarrow> Dir es
            | Some c \<Rightarrow> Dir (AList.update k (remove_at ks c) es)))"

text \<open>
  \<open>os.walk(top)\<close>: for every directory, top-down, its path, the names of its subdirectories
  and the names of its files; nothing when \<open>top\<close> is not a directory.  (The walk of a file
  child is empty, so the recursion may run over every child.)
\<close>

fun walk :: "path \<Rightarrow> node \<Rightarrow> (path \<times> string list \<times> string list) list" where
  "walk root (File b) = []"
| "walk root (Dir es) =
     (root, map fst (filter (\<lambda>e. is_dir_node (snd e)) es),
            map fst (filter (\<lambda>e. is_file_node (snd e)) es))
     # concat (map (\<lambda>e. walk (root @ [fst e]) (snd e)) es)"

text \<open>\<open>p.rglob('*')\<close>: every path strictly below \<open>p\<close>; nothing when \<open>p\<close> is a file.\<close>

fun rglob :: "path \<Rightarrow> node \<Rightarrow> path list" where
  "rglob p (File b) = []"
| "rglob p (Dir es) = concat (map (\<lambda>e. (p @ [fst e]) # rglob (p @ [fst e]) (snd e)) es)"



text \<open>An archive entry as the specification has it: at a path there is a file with its
  bytes, or a directory.\<close>

datatype entry = FileEntry string | DirEntry

fun entry_of :: "node \<Rightarrow> entry" where
  "entry_of (File b) = FileEntry b"
| "entry_of (Dir es) = DirEntry"

definition entry_at :: "node \<Rightarrow> path \<Rightarrow> entry option" where
  "entry_at t p = map_option entry_of (lookup t p)"

section \<open>The codec providers\<close>

text \<open>
  \<open>zipfile\<close>, \<open>pyzipper\<close>, \<open>tarfile\<close>, \<open>py7zr\<close> and \<open>rarfile\<close> are libraries outside the
  repository; the manager is verified for every behaviour of theirs.  An environment says
  which optional modules were importable and what the codecs compute:
  \<^item> a reader takes the bytes of the archive file (and the password it is given) and either
    fails to open it or lists, member by member and in order, what extracting the member
    gives: an exception, or the file or directory to materialise below the target directory;
  \<^item> a writer takes the members handed to it, each a name relative to the staging root
    (modelled by its components) with the file's bytes, and returns the archive's bytes;
  \<^item> \<open>zip_probe_aes\<close> is the outcome of the probe
    \<open>pyzipper.AESZipFile(archive_path).encryption == pyzipper.WZ_AES\<close>, false when the probe
    raises.
  Progress bars only observe and are left out.
\<close>

datatype item = FileItem path string | DirItem path

datatype opener = ZipFile | AESZipFile

datatype encryption = WZ_AES

record env =
  py7zr :: bool
  rarfile :: bool
  PYZIPPER_AVAILABLE :: bool
  zip_probe_aes :: "string \<Rightarrow> bool"
  zip_read :: "opener \<Rightarrow> string \<Rightarrow> string option \<Rightarrow> exn + (exn + item) list"
  tar_read :: "string \<Rightarrow> exn + (exn + item) list"
  sevenz_read :: "string \<Rightarrow> string option \<Rightarrow> exn + (exn + item) list"
  rar_read :: "string \<Rightarrow> string option \<Rightarrow> exn + (exn + item) list"
  zip_write :: "opener \<Rightarrow> encryption option \<Rightarrow> string option \<Rightarrow> (path \<times> string) list \<Rightarrow> string"
  tar_write :: "string \<Rightarrow> (path \<times> string) list \<Rightarrow> string"
  sevenz_write :: "string option \<Rightarrow> (path \<times> string) list \<Rightarrow> string"

text \<open>
  The keyword parameters of the two ZIP constructors.  \<open>zipfile.ZipFile.__init__(file, mode,
  compression, allowZip64, compresslevel, *, strict_timestamps, metadata_encoding)\<close> has no
  parameter \<open>encryption\<close>; \<open>pyzipper.AESZipFile\<close> takes \<open>encryption\<close> and \<open>encryption_kwargs\<close>
  and passes the rest on.  Calling a constructor with a keyword it does not have raises
  \<open>TypeError\<close> before anything is opened.
\<close>

fun opener_params :: "opener \<Rightarrow> string list" where
  "opener_params ZipFile =
     [''file'', ''mode'', ''compression'', ''allowZip64'', ''compresslevel'',
      ''strict_timestamps'', ''metadata_encoding'']"
| "opener_params AESZipFile =
     [''file'', ''mode'', ''compression'', ''allowZip64'', ''compresslevel'',
      ''strict_timestamps'', ''metadata_encoding'', ''encryption'', ''encryption_kwargs'']"

definition call_opener :: "opener \<Rightarrow> string list \<Rightarrow> exn + unit" where
  "call_opener opn keywords =
     (case filter (\<lambda>k. k \<notin> set (opener_params opn)) keywords of
        [] \<Rightarrow> Inr ()
      | k # ks \<Rightarrow>
          Inl (Exn TypeError
                (''ZipFile.__init__() got an unexpected keyword argument '' @ quoted k)))"

text \<open>
  What a library's \<open>extract\<close> does with a member it could decode: the member's parent
  directories are created as needed and the file is written, or the directory is created.
  A member whose extraction fails leaves the tree as it was before that member.
\<close>

definition materialize :: "path \<Rightarrow> item \<Rightarrow> node \<Rightarrow> exn + node" where
  "materialize d it t =
     (case it of
        DirItem p \<Rightarrow> raise_errno (collapse (d @ p)) (makedirs (collapse (d @ p)) t)
      | FileItem p b \<Rightarrow>
          (case makedirs (butlast (collapse (d @ p))) t of
             Inl e \<Rightarrow> Inl (os_error e (butlast (collapse (d @ p))))
           | Inr t1 \<Rightarrow> raise_errno (collapse (d @ p)) (write_file (collapse (d @ p)) b t1)))"

section \<open>The session\<close>

text \<open>
  \<open>ArchiveManager\<close>: its four attributes, together with the world it acts on: the file
  system, the process's working directory and the messages given to the logger (level and
  text; \<open>INFO\<close> where the source names no level).  An operation returns its result, or the
  exception it raised, and the state it leaves behind.
\<close>

record session =
  temp_dir :: path
  password_for_export :: "string option"
  imported_archive_path :: "string option"
  is_encrypted_import :: bool
  fs :: node
  cwd :: path
  messages :: "(string \<times> string) list"

definition say :: "string \<Rightarrow> string \<Rightarrow> session \<Rightarrow> session" where
  "say level msg s = s\<lparr>messages := messages s @ [(level, msg)]\<rparr>"

text \<open>Python's truth value of an optional string: \<open>None\<close> and \<open>''\<close> are false.\<close>

definition truthy :: "string option \<Rightarrow> bool" where
  "truthy x = (case x of None \<Rightarrow> False | Some v \<Rightarrow> v \<noteq> [])"

text \<open>\<open>Path(str)\<close> as the file system sees it, and the tests on paths.\<close>

definition Path :: "session \<Rightarrow> string \<Rightarrow> path" where
  "Path s str = joinpath (cwd s) str"

definition node_at :: "session \<Rightarrow> path \<Rightarrow> node option" where
  "node_at s p = lookup (fs s) (collapse p)"

definition path_exists :: "session \<Rightarrow> path \<Rightarrow> bool" where
  "path_exists s p = (node_at s p \<noteq> None)"

definition is_dir :: "session \<Rightarrow> path \<Rightarrow> bool" where
  "is_dir s p = (case node_at s p of Some n \<Rightarrow> is_dir_node n | None \<Rightarrow> False)"

definition is_file :: "session \<Rightarrow> path \<Rightarrow> bool" where
  "is_file s p = (case node_at s p of Some n \<Rightarrow> is_file_node n | None \<Rightarrow> False)"

definition read_file :: "session \<Rightarrow> path \<Rightarrow> exn + string" where
  "read_file s p =
     (case node_at s p of
        Some (File b) \<Rightarrow> Inr b
      | Some (Dir es) \<Rightarrow> Inl (os_error EISDIR (collapse p))
      | None \<Rightarrow> Inl (os_error ENOENT (collapse p)))"



section \<open>Import\<close>

text \<open>The test of the \<open>except\<close> clause of \<open>import_archive\<close>:
  \<open>"password" in str(e).lower() or "encrypted" in str(e).lower() or isinstance(e, RuntimeError)\<close>.\<close>

definition password_related :: "exn \<Rightarrow> bool" where
  "password_related e =
     (contains (lower (exn_message e)) ''password''
      \<or> contains (lower (exn_message e)) ''encrypted''
      \<or> exn_class_of e = RuntimeError)"

text \<open>The extraction loops of the TAR, 7z and RAR branches: members are extracted in order
  and the first exception ends the loop; what was extracted before stays.\<close>

fun extract_members :: "(exn + item) list \<Rightarrow> session \<Rightarrow> (exn + unit) \<times> session" where
  "extract_members [] s = (Inr (), s)"
| "extract_members (m # ms) s =
     (case m of
        Inl e \<Rightarrow> (Inl e, s)
      | Inr it \<Rightarrow>
          (case materialize (temp_dir s) it (fs s) of
             Inl e \<Rightarrow> (Inl e, s)
           | Inr t \<Rightarrow> extract_members ms (s\<lparr>fs := t\<rparr>)))"

text \<open>The loop of \<open>_import_zip_with_progress\<close>, with its handler for \<open>RuntimeError\<close>.\<close>

fun zip_extract_members ::
  "string option \<Rightarrow> (exn + item) list \<Rightarrow> session \<Rightarrow> (exn + unit) \<times> session" where
  "zip_extract_members password [] s = (Inr (), s)"
| "zip_extract_members password (m # ms) s =
     (case (case m of Inl e \<Rightarrow> Inl e | Inr it \<Rightarrow> materialize (temp_dir s) it (fs s)) of
        Inr t \<Rightarrow> zip_extract_members password ms (s\<lparr>fs := t\<rparr>)
      | Inl e \<Rightarrow>
          (if exn_class_of e = RuntimeError
           then (if contains (lower (exn_message e)) ''password'' \<and> \<not> truthy password
                 then (Inl e, (say ''WARN'' ''ZIP is encrypted. Use password.'' s)
                                \<lparr>is_encrypted_import := True\<rparr>)
                 else (Inl e, s))
           else (Inl e, s)))"

text \<open>\<open>ArchiveManager._import_zip_with_progress\<close>.\<close>

definition import_zip_with_progress ::
  "env \<Rightarrow> string \<Rightarrow> string option \<Rightarrow> session \<Rightarrow> (exn + unit) \<times> session" where
  "import_zip_with_progress E archive_path password s =
     (case read_file s (Path s archive_path) of
        Inl e \<Rightarrow> (Inl e, s)
      | Inr data \<Rightarrow>
          (let opn = (if PYZIPPER_AVAILABLE E \<and> zip_probe_aes E data then AESZipFile else ZipFile)
           in case zip_read E opn data (if truthy password then password else None) of
                Inl e \<Rightarrow> (Inl e, s)
              | Inr members \<Rightarrow> zip_extract_members password members s))"

text \<open>\<open>ArchiveManager._import_tar_with_progress\<close> (mode \<open>r:*\<close>: the compression is detected
  from the bytes).\<close>

definition import_tar_with_progress ::
  "env \<Rightarrow> string \<Rightarrow> string \<Rightarrow> session \<Rightarrow> (exn + unit) \<times> session" where
  "import_tar_with_progress E archive_path fmt s =
     (case read_file s (Path s archive_path) of
        Inl e \<Rightarrow> (Inl e, s)
      | Inr data \<Rightarrow>
          (case tar_read E data of
             Inl e \<Rightarrow> (Inl e, s)
           | Inr members \<Rightarrow> extract_members members s))"

text \<open>The body of the \<open>try\<close> block of \<open>import_archive\<close>.\<close>

definition import_by_format ::
  "env \<Rightarrow> string \<Rightarrow> string \<Rightarrow> string option \<Rightarrow> session \<Rightarrow> (exn + unit) \<times> session" where
  "import_by_format E fmt archive_path password s =
     (if fmt = ''zip'' then import_zip_with_progress E archive_path password s
      else if fmt \<in> set [''tar'', ''tar.gz'', ''gz'', ''tar.xz'', ''xz'']
           then import_tar_with_progress E archive_path fmt s
      else if fmt = ''7z''
           then (if \<not> py7zr E then (Inl (Exn ImportError ''py7zr is not installed.''), s)
                 else (case read_file s (Path s archive_path) of
                         Inl e \<Rightarrow> (Inl e, s)
                       | Inr data \<Rightarrow>
                           (case sevenz_read E data password of
                              Inl e \<Rightarrow> (Inl e, s)
                            | Inr members \<Rightarrow> extract_members members s)))
      else if fmt = ''rar''
           then (if \<not> rarfile E then (Inl (Exn ImportError ''rarfile is not installed.''), s)
                 else (case read_file s (Path s archive_path) of
                         Inl e \<Rightarrow> (Inl e, s)
                       | Inr data \<Rightarrow>
                           (case rar_read E data password of
                              Inl e \<Rightarrow> (Inl e, s)
                            | Inr members \<Rightarrow> extract_members members s)))
      else (Inl (Exn ValueError (''Unsupported import format: '' @ fmt)), s))"

text \<open>\<open>ArchiveManager.import_archive\<close>.\<close>

definition import_archive ::
  "env \<Rightarrow> string \<Rightarrow> string option \<Rightarrow> session \<Rightarrow> (exn + unit) \<times> session" where
  "import_archive E archive_path password s =
     (if \<not> path_exists s (Path s archive_path)
      then (Inl (Exn FileNotFoundError (''Archive not found: '' @ archive_path)), s)
      else
        (let s1 = s\<lparr>imported_archive_path := Some archive_path\<rparr>;
             fmt = get_format archive_path;
             s2 = say ''INFO'' (''Importing '' @ quoted archive_path @ '' (format: '' @ fmt @ '')'') s1
         in case import_by_format E fmt archive_path password s2 of
              (Inr u, s3) \<Rightarrow> (Inr (), say ''INFO'' ''Import successful.'' s3)
            | (Inl e, s3) \<Rightarrow>
                (if password_related e
                 then (Inl e, say ''WARN'' (''Import failed (likely encryption): '' @ exn_message e)
                                (s3\<lparr>is_encrypted_import := True\<rparr>))
                 else (Inl e, say ''ERROR'' (''Failed to import archive: '' @ exn_message e) s3))))"

section \<open>Export\<close>

text \<open>The file list of \<open>export\<close>: \<open>os.path.join(root, file)\<close> for every file of every
  directory that \<open>os.walk(self.temp_dir)\<close> visits.\<close>

definition file_list :: "session \<Rightarrow> path list" where
  "file_list s =
     (case node_at s (temp_dir s) of
        None \<Rightarrow> []
      | Some n \<Rightarrow>
          concat (map (\<lambda>(root, dirs, files). map (\<lambda>file. root @ [file]) files)
                      (walk (temp_dir s) n)))"

text \<open>\<open>os.path.relpath(file_path, self.temp_dir)\<close> for a path that the walk produced below
  the staging root: the components after the root.\<close>

definition relpath :: "path \<Rightarrow> path \<Rightarrow> path" where
  "relpath p start = drop (length start) p"

text \<open>The members handed to a writer: for every listed path, in order, its name relative
  to the staging root and the bytes the writer reads from the file.\<close>

definition archive_entries :: "session \<Rightarrow> path list \<Rightarrow> (path \<times> string) list" where
  "archive_entries s paths =
     concat (map (\<lambda>file_path.
                    (case read_file s file_path of
                       Inr b \<Rightarrow> [(relpath file_path (temp_dir s), b)]
                     | Inl e \<Rightarrow> []))
                 paths)"

text \<open>Opening the output for writing creates or truncates the file at \<open>output_path\<close>; the
  archive's bytes are in it when the writer is closed.\<close>

definition write_output :: "string \<Rightarrow> string \<Rightarrow> session \<Rightarrow> (exn + unit) \<times> session" where
  "write_output output_path data s =
     (case write_file (collapse (Path s output_path)) data (fs s) of
        Inl e \<Rightarrow> (Inl (os_error e (collapse (Path s output_path))), s)
      | Inr t \<Rightarrow> (Inr (), s\<lparr>fs := t\<rparr>))"

text \<open>\<open>ArchiveManager._export_zip_with_progress\<close>.  The constructor is called with the
  keywords \<open>compression\<close> and \<open>encryption\<close> whichever opener was chosen.\<close>

definition export_zip_with_progress ::
  "env \<Rightarrow> string \<Rightarrow> path list \<Rightarrow> session \<Rightarrow> (exn + unit) \<times> session" where
  "export_zip_with_progress E output_path paths s =
     (let pw = password_for_export s;
          (opn, enc, s1) =
            (if truthy pw \<and> PYZIPPER_AVAILABLE E then (AESZipFile, Some WZ_AES, s)
             else if truthy pw
                  then (ZipFile, None,
                        say ''WARN'' ''pyzipper not installed. Creating normal zip.'' s)
             else (ZipFile, None, s))
      in case call_opener opn [''compression'', ''encryption''] of
           Inl e \<Rightarrow> (Inl e, s1)
         | Inr u \<Rightarrow>
             write_output output_path
               (zip_write E opn enc (if truthy pw then pw else None) (archive_entries s1 paths))
               s1)"

text \<open>\<open>ArchiveManager._export_tar_with_progress\<close>.\<close>

definition export_tar_with_progress ::
  "env \<Rightarrow> string \<Rightarrow> string \<Rightarrow> path list \<Rightarrow> session \<Rightarrow> (exn + unit) \<times> session" where
  "export_tar_with_progress E output_path fmt paths s =
     (let mode = (if contains fmt ''gz'' then ''w:gz''
                  else if contains fmt ''xz'' then ''w:xz'' else ''w'')
      in write_output output_path (tar_write E mode (archive_entries s paths)) s)"

text \<open>\<open>ArchiveManager.export\<close>.\<close>

definition export ::
  "env \<Rightarrow> string \<Rightarrow> string option \<Rightarrow> session \<Rightarrow> (exn + unit) \<times> session" where
  "export E output_path compression_format s =
     (let fmt = (if truthy compression_format then the compression_format
                 else get_format output_path);
          s1 = say ''INFO'' (''Exporting content to '' @ quoted output_path
                              @ '' (format: '' @ fmt @ '')'') s;
          paths = file_list s1;
          r = (if fmt = ''zip'' then export_zip_with_progress E output_path paths s1
               else if fmt \<in> set [''tar'', ''tar.gz'', ''tar.xz'']
                    then export_tar_with_progress E output_path fmt paths s1
               else if fmt = ''7z''
                    then (if \<not> py7zr E
                          then (Inl (Exn ImportError ''py7zr is not installed.''), s1)
                          else write_output output_path
                                 (sevenz_write E (password_for_export s1)
                                    (archive_entries s1 paths)) s1)
               else (Inl (Exn ValueError (''Unsupported export format: '' @ fmt
                                           @ '' or implementation pending.'')), s1))
      in case r of
           (Inl e, s2) \<Rightarrow> (Inl e, s2)
         | (Inr u, s2) \<Rightarrow> (Inr (), say ''INFO'' ''Export successful.'' s2))"

section \<open>The encryption policy\<close>

text \<open>\<open>ArchiveManager.encrypt\<close>.\<close>

definition encrypt :: "string \<Rightarrow> session \<Rightarrow> (exn + unit) \<times> session" where
  "encrypt password s =
     (if password = [] then (Inl (Exn ValueError ''Password must be a non-empty string.''), s)
      else (Inr (), say ''INFO'' ''Encryption for export has been enabled.''
                      (s\<lparr>password_for_export := Some password\<rparr>)))"


definition remove_item :: "string \<Rightarrow> session \<Rightarrow> session" where
  "remove_item item s =
     (let item_path = temp_dir s @ [item]
      in if is_file s item_path then s\<lparr>fs := remove_at (collapse item_path) (fs s)\<rparr>
         else if is_dir s item_path then s\<lparr>fs := remove_at (collapse item_path) (fs s)\<rparr>
         else s)"


section \<open>Tree operations\<close>

text \<open>\<open>shutil.copy(src, dst)\<close>: into \<open>dst\<close> under the source's name when \<open>dst\<close> is a
  directory; copying a file onto itself is refused.\<close>

definition shutil_copy :: "path \<Rightarrow> string \<Rightarrow> path \<Rightarrow> session \<Rightarrow> (exn + unit) \<times> session" where
  "shutil_copy src src_name dst s =
     (let target = (if is_dir s dst then joinpath dst src_name else dst)
      in if path_exists s target \<and> collapse src = collapse target
         then (Inl (Exn OSError (quoted (path_str src) @ '' and '' @ quoted (path_str target)
                                  @ '' are the same file'')), s)
         else (case read_file s src of
                 Inl e \<Rightarrow> (Inl e, s)
               | Inr b \<Rightarrow>
                   (case write_file (collapse target) b (fs s) of
                      Inl e \<Rightarrow> (Inl (os_error e (collapse target)), s)
                    | Inr t \<Rightarrow> (Inr (), s\<lparr>fs := t\<rparr>))))"

text \<open>\<open>shutil.copytree(src, dst)\<close>: \<open>dst\<close> must not exist; it is created with its missing
  parents and receives a copy of the source's subtree.\<close>

definition copytree :: "path \<Rightarrow> path \<Rightarrow> session \<Rightarrow> (exn + unit) \<times> session" where
  "copytree src dst s =
     (case node_at s src of
        None \<Rightarrow> (Inl (os_error ENOENT (collapse src)), s)
      | Some n \<Rightarrow>
          (if path_exists s dst then (Inl (os_error EEXIST (collapse dst)), s)
           else (case makedirs (butlast (collapse dst)) (fs s) of
                   Inl e \<Rightarrow> (Inl (os_error e (butlast (collapse dst))), s)
                 | Inr t1 \<Rightarrow>
                     (case place (collapse dst) n t1 of
                        Inl e \<Rightarrow> (Inl (os_error e (collapse dst)), s)
                      | Inr t2 \<Rightarrow> (Inr (), s\<lparr>fs := t2\<rparr>)))))"

text \<open>\<open>Path.parent\<close>: the path without its last part.\<close>

definition parent :: "path \<Rightarrow> path" where
  "parent p = butlast p"

text \<open>\<open>ArchiveManager.add\<close>.\<close>

definition add :: "string \<Rightarrow> string \<Rightarrow> session \<Rightarrow> (exn + unit) \<times> session" where
  "add source_path dest_path_in_archive s =
     (let source = Path s source_path;
          source_name = path_name (path_parts source_path)
      in if \<not> path_exists s source
         then (Inl (Exn FileNotFoundError (''Source not found: '' @ source_path)), s)
         else
           (case resolve_path (temp_dir s) dest_path_in_archive of
              Inl e \<Rightarrow> (Inl e, s)
            | Inr dest_path \<Rightarrow>
                (case (if is_dir s source
                       then copytree source (joinpath dest_path source_name) s
                       else
                         (let final_dest =
                                (if is_dir s dest_path \<or> endswith dest_path_in_archive ''/''
                                 then dest_path else parent dest_path)
                          in case makedirs (collapse final_dest) (fs s) of
                               Inl e \<Rightarrow> (Inl (os_error e (collapse final_dest)), s)
                             | Inr t \<Rightarrow>
                                 (let s1 = s\<lparr>fs := t\<rparr>
                                  in shutil_copy source source_name
                                       (if is_dir s1 final_dest
                                        then joinpath final_dest source_name else final_dest)
                                       s1))) of
                   (Inl e, s2) \<Rightarrow> (Inl e, s2)
                 | (Inr u, s2) \<Rightarrow>
                     (Inr (), say ''INFO'' (''Added '' @ quoted source_path @ '' to archive.'') s2))))"

text \<open>\<open>ArchiveManager.remove\<close>.\<close>

definition remove :: "string \<Rightarrow> session \<Rightarrow> (exn + unit) \<times> session" where
  "remove path_in_archive s =
     (case resolve_path (temp_dir s) path_in_archive of
        Inl e \<Rightarrow> (Inl e, s)
      | Inr target_path \<Rightarrow>
          (if \<not> path_exists s target_path
           then (Inl (Exn FileNotFoundError (''Path not found: '' @ quoted path_in_archive)), s)
           else (Inr (), say ''INFO'' (''Removed '' @ quoted path_in_archive @ ''.'')
                           (s\<lparr>fs := remove_at (collapse target_path) (fs s)\<rparr>))))"

text \<open>\<open>p.relative_to(base)\<close> and \<open>str\<close> of a relative path.\<close>

definition relative_to :: "path \<Rightarrow> path \<Rightarrow> exn + path" where
  "relative_to p base =
     (if startswith p base then Inr (drop (length base) p)
      else Inl (Exn ValueError (quoted (path_str p) @ '' is not in the subpath of ''
                                 @ quoted (path_str base))))"

definition rel_str :: "path \<Rightarrow> string" where
  "rel_str p = (if p = [] then ''.'' else join_sep p)"

text \<open>The loop of \<open>list_files\<close>, which appends \<open>str(p.relative_to(self.temp_dir))\<close>.\<close>

fun relative_strs :: "path \<Rightarrow> path list \<Rightarrow> exn + string list" where
  "relative_strs base [] = Inr []"
| "relative_strs base (p # ps) =
     (case relative_to p base of
        Inl e \<Rightarrow> Inl e
      | Inr r \<Rightarrow>
          (case relative_strs base ps of
             Inl e \<Rightarrow> Inl e
           | Inr rs \<Rightarrow> Inr (rel_str r # rs)))"

text \<open>\<open>ArchiveManager.list_files\<close>.\<close>

definition list_files :: "string \<Rightarrow> session \<Rightarrow> exn + string list" where
  "list_files path_in_archive s =
     (case resolve_path (temp_dir s) path_in_archive of
        Inl e \<Rightarrow> Inl e
      | Inr target_path \<Rightarrow>
          (case node_at s target_path of
             None \<Rightarrow> Inr (sort [])
           | Some n \<Rightarrow>
               (case relative_strs (temp_dir s) (rglob target_path n) of
                  Inl e \<Rightarrow> Inl e
                | Inr paths \<Rightarrow> Inr (sort paths))))"

section \<open>The round trip\<close>


section \<open>An example world\<close>

text \<open>
  A small file system, a codec environment and a session on them, at which the theorems
  below are instantiated.  The example codecs know three archives: an encrypted ZIP whose
  single member needs the password \<open>s3cret\<close>, and two TAR archives (an empty one, and one
  with the file \<open>docs/notes.txt\<close>); they cannot read anything else.  In the example
  environment no optional module (py7zr, rarfile, pyzipper) is installed.
\<close>

definition demo_fs :: node where
  "demo_fs =
     Dir [(''home'', Dir [(''notes.txt'', File ''hello''),
                          (''secret.zip'', File ''ZIP:locked''),
                          (''site.tar'', File ''TAR:notes'')]),
          (''tmp'', Dir [(''stage'', Dir [])])]"

definition demo_zip_read :: "opener \<Rightarrow> string \<Rightarrow> string option \<Rightarrow> exn + (exn + item) list" where
  "demo_zip_read opn data password =
     (if data = ''ZIP:locked''
      then (if password = Some ''s3cret'' then Inr [Inr (FileItem [''plan.txt''] ''at dawn'')]
            else if password = None
                 then Inr [Inl (Exn RuntimeError
                                 (''File '' @ quoted ''plan.txt''
                                  @ '' is encrypted, password required for extraction''))]
            else Inr [Inl (Exn RuntimeError (''Bad password for file '' @ quoted ''plan.txt''))])
      else Inl (Exn CodecError ''File is not a zip file''))"

definition demo_tar_archives :: "(string \<times> (path \<times> string) list) list" where
  "demo_tar_archives =
     [(''TAR:empty'', []),
      (''TAR:notes'', [([''docs'', ''notes.txt''], ''hello'')])]"

definition demo_tar_read :: "string \<Rightarrow> exn + (exn + item) list" where
  "demo_tar_read data =
     (case map_of demo_tar_archives data of
        Some members \<Rightarrow> Inr (map (\<lambda>(p, b). Inr (FileItem p b)) members)
      | None \<Rightarrow> Inl (Exn CodecError ''file could not be opened successfully''))"

definition demo_tar_write :: "string \<Rightarrow> (path \<times> string) list \<Rightarrow> string" where
  "demo_tar_write mode members =
     (case filter (\<lambda>a. snd a = members) demo_tar_archives of
        a # as \<Rightarrow> fst a
      | [] \<Rightarrow> ''TAR:other'')"

definition demo_env :: env where
  "demo_env =
     \<lparr>py7zr = False, rarfile = False, PYZIPPER_AVAILABLE = False,
      zip_probe_aes = (\<lambda>data. False),
      zip_read = demo_zip_read,
      tar_read = demo_tar_read,
      sevenz_read = (\<lambda>data password. Inl (Exn CodecError ''not a 7z file'')),
      rar_read = (\<lambda>data password. Inl (Exn CodecError ''not a RAR file'')),
      zip_write = (\<lambda>opn enc password members. ''ZIP:other''),
      tar_write = demo_tar_write,
      sevenz_write = (\<lambda>password members. ''7Z:other'')\<rparr>"

definition demo_session :: session where
  "demo_session =
     \<lparr>temp_dir = [''tmp'', ''stage''], password_for_export = None,
      imported_archive_path = None, is_encrypted_import = False,
      fs = demo_fs, cwd = [''home''], messages = []\<rparr>"



section \<open>Facts about the string and path functions\<close>

lemma lower_char_sep [simp]: "(lower_char c = CHR ''/'') = (c = CHR ''/'')"
  by (auto simp: lower_char_def latin1_upper_def latin1_lower_def split: option.splits if_splits)

lemma lower_char_dot [simp]: "(lower_char c = CHR ''.'') = (c = CHR ''.'')"
  by (auto simp: lower_char_def latin1_upper_def latin1_lower_def split: option.splits if_splits)

lemma lower_char_dot' [simp]: "(CHR ''.'' = lower_char c) = (c = CHR ''.'')"
  by (auto simp: lower_char_def latin1_upper_def latin1_lower_def split: option.splits if_splits)

lemma lower_char_idem [simp]: "lower_char (lower_char c) = lower_char c"
  by (auto simp: lower_char_def latin1_upper_def latin1_lower_def split: option.splits if_splits)

lemma lower_idem [simp]: "lower (lower s) = lower s"
  by (simp add: lower_def)

lemma lower_Nil [simp]: "(lower s = []) = (s = [])"
  by (simp add: lower_def)

lemma lower_dot [simp]: "(lower s = ''.'') = (s = ''.'')"
  by (cases s) (auto simp: lower_def)


lemma dot_in_lower [simp]: "(CHR ''.'' \<in> set (lower s)) = (CHR ''.'' \<in> set s)"
  by (induction s) (auto simp: lower_def)

lemma split_sep_ne [simp]: "split_sep s \<noteq> []"
  by (induction s) (auto split: list.splits)







lemma length_lower [simp]: "length (lower s) = length s"
  by (simp add: lower_def)













section \<open>The path resolver\<close>

text \<open>
  C3 (the code at the failing input).  For the staging root \<open>/tmp/stage\<close> and the input
  \<open>../../etc/passwd\<close>, \<open>_resolve_path\<close> raises nothing: it returns the path
  \<open>/tmp/stage/../../etc/passwd\<close>, which resolves to \<open>/etc/passwd\<close>, a path that is not below
  the staging root.
\<close>

theorem resolve_path_escapes:
  "resolve_path [''tmp'', ''stage''] ''../../etc/passwd''
     = Inr [''tmp'', ''stage'', ''..'', ''..'', ''etc'', ''passwd'']
   \<and> collapse [''tmp'', ''stage'', ''..'', ''..'', ''etc'', ''passwd''] = [''etc'', ''passwd'']
   \<and> \<not> startswith (path_str [''etc'', ''passwd'']) (path_str [''tmp'', ''stage''])"
  by (simp add: resolve_path_def safe_path_def lstrip_seps_def normpath_def startswith_def joinpath_def
      is_absolute_def path_parts_def collapse_def path_str_def)

section \<open>Facts about import\<close>

lemma say_fields [simp]:
  "temp_dir (say l m s) = temp_dir s"
  "password_for_export (say l m s) = password_for_export s"
  "imported_archive_path (say l m s) = imported_archive_path s"
  "is_encrypted_import (say l m s) = is_encrypted_import s"
  "fs (say l m s) = fs s"
  "cwd (say l m s) = cwd s"
  by (simp_all add: say_def)

lemma extract_members_fields:
  "extract_members ms s = (r, s') \<Longrightarrow>
     temp_dir s' = temp_dir s \<and> password_for_export s' = password_for_export s
     \<and> imported_archive_path s' = imported_archive_path s
     \<and> is_encrypted_import s' = is_encrypted_import s \<and> cwd s' = cwd s
     \<and> messages s' = messages s"
proof (induction ms arbitrary: s)
  case Nil
  then show ?case by simp
next
  case (Cons m ms)
  show ?case
  proof (cases m)
    case (Inl e)
    with Cons.prems show ?thesis by simp
  next
    case (Inr it)
    show ?thesis
    proof (cases "materialize (temp_dir s) it (fs s)")
      case (Inl e)
      with Cons.prems Inr show ?thesis by simp
    next
      case mat: (Inr t)
      with Cons.prems Inr have "extract_members ms (s\<lparr>fs := t\<rparr>) = (r, s')"
        by simp
      from Cons.IH [OF this] show ?thesis by simp
    qed
  qed
qed

lemma zip_extract_members_fields:
  "zip_extract_members pw ms s = (r, s') \<Longrightarrow>
     temp_dir s' = temp_dir s \<and> password_for_export s' = password_for_export s
     \<and> imported_archive_path s' = imported_archive_path s \<and> cwd s' = cwd s"
proof (induction ms arbitrary: s)
  case Nil
  then show ?case by simp
next
  case (Cons m ms)
  show ?case
  proof (cases "case m of Inl e \<Rightarrow> Inl e | Inr it \<Rightarrow> materialize (temp_dir s) it (fs s)")
    case (Inl e)
    with Cons.prems show ?thesis by (auto split: if_splits)
  next
    case (Inr t)
    with Cons.prems have "zip_extract_members pw ms (s\<lparr>fs := t\<rparr>) = (r, s')"
      by simp
    from Cons.IH [OF this] show ?thesis by simp
  qed
qed

lemma zip_extract_members_flag:
  "zip_extract_members pw ms s = (r, s') \<Longrightarrow>
     is_encrypted_import s' =
       (is_encrypted_import s \<or> (\<exists>e. r = Inl e \<and> exn_class_of e = RuntimeError
          \<and> contains (lower (exn_message e)) ''password'' \<and> \<not> truthy pw))"
proof (induction ms arbitrary: s)
  case Nil
  then show ?case by auto
next
  case (Cons m ms)
  show ?case
  proof (cases "case m of Inl e \<Rightarrow> Inl e | Inr it \<Rightarrow> materialize (temp_dir s) it (fs s)")
    case (Inl e)
    with Cons.prems show ?thesis by (auto split: if_splits)
  next
    case (Inr t)
    with Cons.prems have "zip_extract_members pw ms (s\<lparr>fs := t\<rparr>) = (r, s')"
      by simp
    from Cons.IH [OF this] show ?thesis by simp
  qed
qed

lemma import_by_format_fields:
  assumes "import_by_format E fmt ap pw s = (r, s')"
  shows "temp_dir s' = temp_dir s \<and> password_for_export s' = password_for_export s
     \<and> imported_archive_path s' = imported_archive_path s \<and> cwd s' = cwd s"
  using assms
  unfolding import_by_format_def import_zip_with_progress_def import_tar_with_progress_def
  by (auto split: if_splits sum.splits dest: extract_members_fields zip_extract_members_fields)

lemma import_by_format_flag:
  assumes "import_by_format E fmt ap pw s = (r, s')"
  shows "(is_encrypted_import s \<longrightarrow> is_encrypted_import s')
     \<and> (is_encrypted_import s' \<longrightarrow>
          is_encrypted_import s \<or> (\<exists>e. r = Inl e \<and> exn_class_of e = RuntimeError))"
  using assms
  unfolding import_by_format_def import_zip_with_progress_def import_tar_with_progress_def
  by (auto split: if_splits sum.splits dest: extract_members_fields zip_extract_members_flag)

lemma runtime_error_password_related:
  "exn_class_of e = RuntimeError \<Longrightarrow> password_related e"
  by (simp add: password_related_def)

lemma import_archive_missing:
  "\<not> path_exists s (Path s ap) \<Longrightarrow>
     import_archive E ap pw s = (Inl (Exn FileNotFoundError (''Archive not found: '' @ ap)), s)"
  by (simp add: import_archive_def)

lemma import_archive_existing:
  assumes "path_exists s (Path s ap)"
  shows "import_archive E ap pw s =
     (case import_by_format E (get_format ap) ap pw
             (say ''INFO'' (''Importing '' @ quoted ap @ '' (format: '' @ get_format ap @ '')'')
                (s\<lparr>imported_archive_path := Some ap\<rparr>)) of
        (Inr u, s3) \<Rightarrow> (Inr (), say ''INFO'' ''Import successful.'' s3)
      | (Inl e, s3) \<Rightarrow>
          (if password_related e
           then (Inl e, say ''WARN'' (''Import failed (likely encryption): '' @ exn_message e)
                          (s3\<lparr>is_encrypted_import := True\<rparr>))
           else (Inl e, say ''ERROR'' (''Failed to import archive: '' @ exn_message e) s3)))"
  using assms by (simp add: import_archive_def Let_def)

lemma import_archive_flag:
  assumes "import_archive E ap pw s = (r, s')"
  shows "is_encrypted_import s' =
     (is_encrypted_import s \<or> (\<exists>e. r = Inl e \<and> path_exists s (Path s ap) \<and> password_related e))"
proof (cases "path_exists s (Path s ap)")
  case False
  with assms show ?thesis by (auto simp: import_archive_missing)
next
  case True
  let ?s2 = "say ''INFO'' (''Importing '' @ quoted ap @ '' (format: '' @ get_format ap @ '')'')
                (s\<lparr>imported_archive_path := Some ap\<rparr>)"
  obtain r0 s3 where b: "import_by_format E (get_format ap) ap pw ?s2 = (r0, s3)"
    by (cases "import_by_format E (get_format ap) ap pw ?s2")
  from import_by_format_flag [OF b]
  have f3: "is_encrypted_import s \<longrightarrow> is_encrypted_import s3"
    and f4: "is_encrypted_import s3 \<longrightarrow>
          is_encrypted_import s \<or> (\<exists>e. r0 = Inl e \<and> exn_class_of e = RuntimeError)"
    by simp_all
  show ?thesis
  proof (cases r0)
    case (Inr u)
    with assms True b f3 f4 show ?thesis
      by (auto simp: import_archive_existing)
  next
    case (Inl e)
    with assms True b f3 f4 show ?thesis
      by (auto simp: import_archive_existing runtime_error_password_related split: if_splits)
  qed
qed

lemma import_archive_fields:
  assumes "import_archive E ap pw s = (r, s')"
  shows "temp_dir s' = temp_dir s \<and> password_for_export s' = password_for_export s \<and> cwd s' = cwd s"
proof (cases "path_exists s (Path s ap)")
  case False
  with assms show ?thesis by (auto simp: import_archive_missing)
next
  case True
  let ?s2 = "say ''INFO'' (''Importing '' @ quoted ap @ '' (format: '' @ get_format ap @ '')'')
                (s\<lparr>imported_archive_path := Some ap\<rparr>)"
  obtain r0 s3 where b: "import_by_format E (get_format ap) ap pw ?s2 = (r0, s3)"
    by (cases "import_by_format E (get_format ap) ap pw ?s2")
  from import_by_format_fields [OF b] assms True b show ?thesis
    by (cases r0) (auto simp: import_archive_existing split: if_splits)
qed

lemma import_archive_identity:
  assumes "path_exists s (Path s ap)" and "import_archive E ap pw s = (r, s')"
  shows "imported_archive_path s' = Some ap"
proof -
  let ?s2 = "say ''INFO'' (''Importing '' @ quoted ap @ '' (format: '' @ get_format ap @ '')'')
                (s\<lparr>imported_archive_path := Some ap\<rparr>)"
  obtain r0 s3 where b: "import_by_format E (get_format ap) ap pw ?s2 = (r0, s3)"
    by (cases "import_by_format E (get_format ap) ap pw ?s2")
  from import_by_format_fields [OF b] assms b show ?thesis
    by (cases r0) (auto simp: import_archive_existing split: if_splits)
qed

section \<open>The source-archive identity\<close>

text \<open>
  C9.  When the archive file exists, \<open>import_archive\<close> records its path as the session's
  source-archive identity before the decoder runs: the decoder is run on a state that
  already holds the identity and its outcome is the outcome of the import, so the identity
  is set afterwards whether the import succeeds or fails, and whatever the failure is.
\<close>

theorem import_records_identity:
  assumes "path_exists s (Path s archive_path)"
    and "import_archive E archive_path password s = (r, s')"
  shows "imported_archive_path s' = Some archive_path
     \<and> (\<exists>s2 s3. imported_archive_path s2 = Some archive_path
            \<and> import_by_format E (get_format archive_path) archive_path password s2 = (r, s3))"
proof -
  let ?s2 = "say ''INFO'' (''Importing '' @ quoted archive_path @ '' (format: ''
                @ get_format archive_path @ '')'') (s\<lparr>imported_archive_path := Some archive_path\<rparr>)"
  obtain r0 s3 where b: "import_by_format E (get_format archive_path) archive_path password ?s2 = (r0, s3)"
    by (cases "import_by_format E (get_format archive_path) archive_path password ?s2")
  have "r = r0"
    using assms b by (cases r0) (auto simp: import_archive_existing split: if_splits)
  with b have "imported_archive_path ?s2 = Some archive_path
      \<and> import_by_format E (get_format archive_path) archive_path password ?s2 = (r, s3)"
    by simp
  then show ?thesis
    using import_archive_identity [OF assms] by blast
qed

text \<open>The import of \<open>notes.txt\<close> fails with an unsupported format, which is not a password
  failure, and leaves the identity set.\<close>

theorem import_records_identity_witness:
  "fst (import_archive demo_env ''notes.txt'' None demo_session)
     = Inl (Exn ValueError ''Unsupported import format: txt'')
   \<and> imported_archive_path (snd (import_archive demo_env ''notes.txt'' None demo_session))
     = Some ''notes.txt''"
proof -
  have ex: "path_exists demo_session (Path demo_session ''notes.txt'')"
    by code_simp
  have r: "fst (import_archive demo_env ''notes.txt'' None demo_session)
     = Inl (Exn ValueError ''Unsupported import format: txt'')"
    by code_simp
  from import_records_identity [OF ex prod.collapse [symmetric]] r show ?thesis
    by blast
qed

section \<open>The known-encrypted flag\<close>

text \<open>
  C5 (counterexample).  The claim says that a failure which is not password-related leaves
  the flag unset.  After the import of the encrypted \<open>secret.zip\<close> without a password has
  failed and set the flag, the import of \<open>notes.txt\<close> fails with \<open>ValueError\<close> (unsupported
  format), which the classifier does not count as password-related, and the flag is still
  set: \<open>import_archive\<close> never clears it.
\<close>

theorem import_flag_not_reset:
  "fst (import_archive demo_env ''secret.zip'' None demo_session)
     = Inl (Exn RuntimeError (''File '' @ quoted ''plan.txt''
             @ '' is encrypted, password required for extraction''))
   \<and> fst (import_archive demo_env ''notes.txt'' None
            (snd (import_archive demo_env ''secret.zip'' None demo_session)))
     = Inl (Exn ValueError ''Unsupported import format: txt'')
   \<and> \<not> password_related (Exn ValueError ''Unsupported import format: txt'')
   \<and> is_encrypted_import
        (snd (import_archive demo_env ''notes.txt'' None
               (snd (import_archive demo_env ''secret.zip'' None demo_session))))"
  by code_simp

text \<open>
  C5 (amended).  After a failed import the flag is set exactly when it was set before the
  attempt, or the archive file existed and the error is classified as password-related (its
  message contains \<open>password\<close> or \<open>encrypted\<close>, or it is a \<open>RuntimeError\<close>).  So a failure
  that is not password-related leaves the flag as it was, and the \<open>FileNotFoundError\<close> for
  a missing archive never sets it, whatever its message.
\<close>

theorem import_flag_after_failure:
  assumes "import_archive E archive_path password s = (Inl e, s')"
  shows "is_encrypted_import s' =
     (is_encrypted_import s \<or> (path_exists s (Path s archive_path) \<and> password_related e))"
  using import_archive_flag [OF assms] by simp

text \<open>In a fresh session the encrypted archive sets the flag, the unsupported format does
  not, and neither does a missing file whose name contains \<open>password\<close>.\<close>

theorem import_flag_after_failure_witness:
  "is_encrypted_import (snd (import_archive demo_env ''secret.zip'' None demo_session))
   \<and> \<not> is_encrypted_import (snd (import_archive demo_env ''notes.txt'' None demo_session))
   \<and> \<not> is_encrypted_import (snd (import_archive demo_env ''my_passwords.zip'' None demo_session))"
proof -
  have a: "import_archive demo_env ''secret.zip'' None demo_session
     = (Inl (Exn RuntimeError (''File '' @ quoted ''plan.txt''
             @ '' is encrypted, password required for extraction'')),
        snd (import_archive demo_env ''secret.zip'' None demo_session))"
    by code_simp
  have a1: "path_exists demo_session (Path demo_session ''secret.zip'')
      \<and> password_related (Exn RuntimeError (''File '' @ quoted ''plan.txt''
             @ '' is encrypted, password required for extraction''))"
    by code_simp
  have b: "import_archive demo_env ''notes.txt'' None demo_session
     = (Inl (Exn ValueError ''Unsupported import format: txt''),
        snd (import_archive demo_env ''notes.txt'' None demo_session))"
    by code_simp
  have b1: "\<not> password_related (Exn ValueError ''Unsupported import format: txt'')
      \<and> \<not> is_encrypted_import demo_session"
    by code_simp
  have c: "import_archive demo_env ''my_passwords.zip'' None demo_session
     = (Inl (Exn FileNotFoundError ''Archive not found: my_passwords.zip''),
        snd (import_archive demo_env ''my_passwords.zip'' None demo_session))"
    by code_simp
  have c1: "\<not> path_exists demo_session (Path demo_session ''my_passwords.zip'')"
    by code_simp
  from import_flag_after_failure [OF a] import_flag_after_failure [OF b]
    import_flag_after_failure [OF c] a1 b1 c1
  show ?thesis by blast
qed

section \<open>The format resolver\<close>




section \<open>Facts about paths and trees\<close>








section \<open>Facts about entries, \<open>makedirs\<close> and \<open>place\<close>\<close>

lemma entry_at_Nil [simp]: "entry_at t [] = Some (entry_of t)"
  by (simp add: entry_at_def)

lemma entry_at_File [simp]: "entry_at (File b) (k # ks) = None"
  by (simp add: entry_at_def)

lemma entry_at_Dir [simp]:
  "entry_at (Dir es) (k # ks) = (case map_of es k of None \<Rightarrow> None | Some c \<Rightarrow> entry_at c ks)"
  by (simp add: entry_at_def split: option.splits)

lemma startswith_Nil [simp]: "startswith p []"
  by (simp add: startswith_def)

lemma startswith_Cons [simp]:
  "startswith (k # ks) (j # js) = (k = j \<and> startswith ks js)"
  by (auto simp: startswith_def)

lemma startswith_Nil_left [simp]: "startswith [] q = (q = [])"
  by (auto simp: startswith_def)

lemma startswith_append [simp]: "startswith (d @ p) (d @ q) = startswith p q"
  by (induction d) simp_all

lemma startswith_self [simp]: "startswith p p"
  by (simp add: startswith_def)














lemma entry_of_Dir [simp]: "(entry_of n = DirEntry) = is_dir_node n"
  by (cases n) simp_all



section \<open>Facts about the wipe\<close>



lemma remove_item_fields [simp]:
  "temp_dir (remove_item k s) = temp_dir s"
  "password_for_export (remove_item k s) = password_for_export s"
  "imported_archive_path (remove_item k s) = imported_archive_path s"
  "is_encrypted_import (remove_item k s) = is_encrypted_import s"
  "cwd (remove_item k s) = cwd s"
  "messages (remove_item k s) = messages s"
  by (simp_all add: remove_item_def Let_def)

lemma fold_remove_item_fields [simp]:
  "temp_dir (fold remove_item ks s) = temp_dir s"
  "password_for_export (fold remove_item ks s) = password_for_export s"
  "imported_archive_path (fold remove_item ks s) = imported_archive_path s"
  "is_encrypted_import (fold remove_item ks s) = is_encrypted_import s"
  "cwd (fold remove_item ks s) = cwd s"
  "messages (fold remove_item ks s) = messages s"
  by (induction ks arbitrary: s) simp_all






section \<open>Retrying an import with a password\<close>



section \<open>Facts about export\<close>






lemma say_fields' [simp]:
  "temp_dir (say l m s) = temp_dir s"
  "password_for_export (say l m s) = password_for_export s"
  "fs (say l m s) = fs s"
  "cwd (say l m s) = cwd s"
  by (simp_all add: say_def)

lemma node_at_say [simp]: "node_at (say l m s) p = node_at s p"
  by (simp add: node_at_def)

lemma file_list_say [simp]: "file_list (say l m s) = file_list s"
  by (simp add: file_list_def cong: option.case_cong)

lemma read_file_say [simp]: "read_file (say l m s) p = read_file s p"
  by (simp add: read_file_def)

lemma archive_entries_say [simp]: "archive_entries (say l m s) ps = archive_entries s ps"
  by (simp add: archive_entries_def cong: sum.case_cong)

lemma Path_say [simp]: "Path (say l m s) str = Path s str"
  by (simp add: Path_def)









section \<open>Facts about \<open>rglob\<close> and the listing\<close>








section \<open>Facts about the round trip\<close>
























section \<open>ZIP export with a password and no AES writer\<close>

text \<open>
  C2 (the code where the claim fails).  The claim says that with an export password set and
  pyzipper absent the ZIP export still succeeds and writes an unencrypted archive.  In
  \<open>_export_zip_with_progress\<close> the opener is then \<open>zipfile.ZipFile\<close>, the warning is logged, and
  the constructor is called with the keyword \<open>encryption\<close>, which \<open>zipfile.ZipFile\<close> does not
  have: for every such session and output path the export raises \<open>TypeError\<close>, after the
  warning, and the file system is left as it was, so no archive is produced.
\<close>

theorem export_zip_without_pyzipper:
  assumes "password_for_export s = Some pw" and "pw \<noteq> []"
    and "\<not> PYZIPPER_AVAILABLE E" and "get_format output_path = ''zip''"
  shows "\<exists>s'. export E output_path None s =
            (Inl (Exn TypeError (''ZipFile.__init__() got an unexpected keyword argument ''
                                  @ quoted ''encryption'')), s')
          \<and> fs s' = fs s
          \<and> (''WARN'', ''pyzipper not installed. Creating normal zip.'') \<in> set (messages s')"
  using assms
  by (simp add: export_def export_zip_with_progress_def call_opener_def say_def Let_def truthy_def)

text \<open>The failing input: the example session after \<open>encrypt('x')\<close>, exporting to
  \<open>out.zip\<close>; no file \<open>/home/out.zip\<close> exists afterwards.\<close>

theorem export_zip_without_pyzipper_witness:
  "fst (export demo_env ''out.zip'' None (snd (encrypt ''x'' demo_session)))
     = Inl (Exn TypeError (''ZipFile.__init__() got an unexpected keyword argument ''
                            @ quoted ''encryption''))
   \<and> fs (snd (export demo_env ''out.zip'' None (snd (encrypt ''x'' demo_session)))) = demo_fs
   \<and> \<not> path_exists (snd (export demo_env ''out.zip'' None (snd (encrypt ''x'' demo_session))))
          [''home'', ''out.zip'']"
proof -
  let ?s = "snd (encrypt ''x'' demo_session)"
  have a: "password_for_export ?s = Some ''x''" "''x'' \<noteq> []"
    "\<not> PYZIPPER_AVAILABLE demo_env" "get_format ''out.zip'' = ''zip''"
    by code_simp+
  have f: "fs ?s = demo_fs"
    by code_simp
  have n: "lookup demo_fs [''home'', ''out.zip''] = None"
    by code_simp
  from export_zip_without_pyzipper [OF a] obtain s' where
    e: "export demo_env ''out.zip'' None ?s =
            (Inl (Exn TypeError (''ZipFile.__init__() got an unexpected keyword argument ''
                                  @ quoted ''encryption'')), s')"
    and t: "fs s' = fs ?s"
    by blast
  have "\<not> path_exists s' [''home'', ''out.zip'']"
    using t f n by (simp add: path_exists_def node_at_def collapse_def)
  with e t f show ?thesis by simp
qed

section \<open>Adding a single file\<close>

text \<open>
  C7 (the code at the failing input).  \<open>add('notes.txt', 'docs/renamed.txt')\<close> in the example
  session: the resolved destination \<open>/tmp/stage/docs/renamed.txt\<close> is not an existing
  directory and the destination string does not end with a slash.  The parent \<open>docs\<close> is
  created, but the file is copied to \<open>docs/notes.txt\<close>, under the source's own name: nothing
  exists at \<open>docs/renamed.txt\<close>, and the listing of the staging area is
  \<open>docs, docs/notes.txt\<close>.  The destination's final segment is never used as the target name.
\<close>

theorem add_ignores_target_name:
  "\<not> is_dir demo_session [''tmp'', ''stage'', ''docs'', ''renamed.txt'']
   \<and> \<not> endswith ''docs/renamed.txt'' ''/''
   \<and> resolve_path (temp_dir demo_session) ''docs/renamed.txt''
       = Inr [''tmp'', ''stage'', ''docs'', ''renamed.txt'']
   \<and> fst (add ''notes.txt'' ''docs/renamed.txt'' demo_session) = Inr ()
   \<and> read_file (snd (add ''notes.txt'' ''docs/renamed.txt'' demo_session))
        [''tmp'', ''stage'', ''docs'', ''notes.txt''] = Inr ''hello''
   \<and> \<not> path_exists (snd (add ''notes.txt'' ''docs/renamed.txt'' demo_session))
        [''tmp'', ''stage'', ''docs'', ''renamed.txt'']
   \<and> list_files ''.'' (snd (add ''notes.txt'' ''docs/renamed.txt'' demo_session))
       = Inr [''docs'', ''docs/notes.txt'']"
  by code_simp

section \<open>What an export enumerates\<close>



section \<open>Listing the staging area\<close>



section \<open>Export followed by import\<close>



end
